theory Spec2Isabelle
  imports Complex_Main
begin

section \<open>Data model (src/lib/api.ts)\<close>

text \<open>
  The interfaces of \<^verbatim>\<open>src/lib/api.ts\<close>, restricted to the fields that the checklist pages
  read. An optional field (\<^verbatim>\<open>f?: T\<close>) is an \<open>option\<close>. Identifiers are JavaScript strings.
  Field names carry a short prefix where two interfaces share a name:
  \<^verbatim>\<open>Room.id\<close> is \<open>rid\<close>, \<^verbatim>\<open>ChecklistItem.id\<close> is \<open>iid\<close>, \<^verbatim>\<open>Checklist.id\<close> is \<open>cid\<close>,
  \<^verbatim>\<open>ChecklistItem.notes\<close> is \<open>inotes\<close>, \<^verbatim>\<open>Checklist.notes\<close> is \<open>cnotes\<close>, \<^verbatim>\<open>item.task?.title\<close> is \<open>task_title\<close>, and
  \<^verbatim>\<open>checklist.property?.rooms\<close> is \<open>property_rooms\<close> (\<open>None\<close> when the property or its room
  list is absent).
\<close>

datatype checklist_status = Pending | InProgress | Completed | Reviewed

datatype role = Admin | PropertyOwner | Housekeeper

record photo =
  path :: string
  uploaded_at :: string

record pivot =
  property_id :: "string option"
  requires_photo :: "bool option"
  photos_required_count :: "int option"

record room =
  rid :: string
  rname :: string
  room_pivot :: "pivot option"

record item =
  iid :: string
  room_id :: string
  completed :: bool
  inotes :: "string option"
  photos :: "photo list option"
  task_title :: "string option"

record checklist =
  cid :: string
  status :: checklist_status
  rating :: "int option"
  cnotes :: "string option"
  property_rooms :: "room list option"
  items :: "item list option"

record user =
  user_role :: role

section \<open>JavaScript idioms used by the pages\<close>

text \<open>
  \<^verbatim>\<open>a || b\<close> on values of type \<^verbatim>\<open>string | undefined\<close>: the left operand is taken unless it is
  falsy, and the empty string is falsy like \<^verbatim>\<open>undefined\<close>.
\<close>

definition js_or :: "string option \<Rightarrow> string option \<Rightarrow> string option" where
  "js_or a b = (case a of None \<Rightarrow> b | Some s \<Rightarrow> if s = [] then b else Some s)"

text \<open>\<^verbatim>\<open>xs || []\<close> for an optional array (every array is truthy).\<close>

definition or_empty :: "'a list option \<Rightarrow> 'a list" where
  "or_empty xs = (case xs of None \<Rightarrow> [] | Some ys \<Rightarrow> ys)"

text \<open>\<^verbatim>\<open>orderedRooms[0]\<close>: \<^verbatim>\<open>undefined\<close> on the empty array.\<close>

definition first_room :: "room list \<Rightarrow> room option" where
  "first_room rs = (case rs of [] \<Rightarrow> None | r # _ \<Rightarrow> Some r)"

section \<open>Room sequencer (src/app/checklists/[id]/page.tsx, fetchChecklist and handleSubmit)\<close>

text \<open>
  \<^verbatim>\<open>items.some(it => it.room_id === r.id && !it.completed)\<close>
\<close>

definition hasIncomplete :: "item list \<Rightarrow> room \<Rightarrow> bool" where
  "hasIncomplete its r = list_ex (\<lambda>it. room_id it = rid r \<and> \<not> completed it) its"

text \<open>
  \<^verbatim>\<open>const firstPending = orderedRooms.find((r) => items.some(...))\<close>
\<close>

definition firstPending :: "room list \<Rightarrow> item list \<Rightarrow> room option" where
  "firstPending orderedRooms its = find (hasIncomplete its) orderedRooms"

text \<open>
  \<^verbatim>\<open>firstPending?.id || orderedRooms[0]?.id || null\<close>, the value given to
  \<^verbatim>\<open>setCurrentRoomId\<close>; \<open>None\<close> is \<^verbatim>\<open>null\<close>.
\<close>

definition currentRoomId :: "room list \<Rightarrow> item list \<Rightarrow> string option" where
  "currentRoomId orderedRooms its =
     js_or (map_option rid (firstPending orderedRooms its))
       (js_or (map_option rid (first_room orderedRooms)) None)"

text \<open>The current room computed from a fetched checklist (\<^verbatim>\<open>data.property?.rooms || []\<close>,
  \<^verbatim>\<open>data.items || []\<close>).\<close>

definition currentRoomIdOf :: "checklist \<Rightarrow> string option" where
  "currentRoomIdOf data = currentRoomId (or_empty (property_rooms data)) (or_empty (items data))"

section \<open>Photo requirement gate (src/app/checklists/[id]/page.tsx)\<close>

text \<open>
  \<^verbatim>\<open>Number(room.pivot?.photos_required_count || 0)\<close>: an absent pivot, an absent count and the
  count \<open>0\<close> all give \<open>0\<close>. The count is a JavaScript number; it is an \<open>int\<close> here.
\<close>

definition pivot_count :: "room \<Rightarrow> int" where
  "pivot_count r =
     (case room_pivot r of None \<Rightarrow> 0
      | Some p \<Rightarrow> (case photos_required_count p of None \<Rightarrow> 0 | Some c \<Rightarrow> if c = 0 then 0 else c))"

text \<open>
  \<^verbatim>\<open>items.filter(it => it.room_id === id).flatMap(it => it.photos || [])\<close>
\<close>

definition roomPhotos :: "item list \<Rightarrow> string \<Rightarrow> photo list" where
  "roomPhotos its i = concat (map (\<lambda>it. or_empty (photos it)) (filter (\<lambda>it. room_id it = i) its))"

record progress =
  required :: int
  total :: nat

text \<open>
  fetchChecklist, lines 63-72: the progress of \<^verbatim>\<open>firstPending || orderedRooms[0]\<close> (room
  objects, always truthy when defined).
\<close>

definition currentRoom :: "room list \<Rightarrow> item list \<Rightarrow> room option" where
  "currentRoom orderedRooms its =
     (case firstPending orderedRooms its of Some r \<Rightarrow> Some r | None \<Rightarrow> first_room orderedRooms)"

definition progress_fetch :: "room list \<Rightarrow> item list \<Rightarrow> progress" where
  "progress_fetch orderedRooms its =
     (case currentRoom orderedRooms its of
        Some current \<Rightarrow>
          \<lparr>required = max 0 (pivot_count current), total = length (roomPhotos its (rid current))\<rparr>
      | None \<Rightarrow> \<lparr>required = 0, total = 0\<rparr>)"

text \<open>
  handleSubmit, lines 138-145: the progress is recomputed from the new current room
  identifier; the room is looked up again by that identifier.
\<close>

definition progress_submit :: "room list \<Rightarrow> item list \<Rightarrow> string option \<Rightarrow> progress" where
  "progress_submit orderedRooms its newCurrentId =
     (case newCurrentId of
        None \<Rightarrow> \<lparr>required = 0, total = 0\<rparr>
      | Some i \<Rightarrow>
          if i = [] then \<lparr>required = 0, total = 0\<rparr>
          else \<lparr>required = max 0 (case find (\<lambda>r. rid r = i) orderedRooms of
                                   None \<Rightarrow> 0 | Some r \<Rightarrow> pivot_count r),
                total = length (roomPhotos its i)\<rparr>)"

section \<open>The environment of a handler run\<close>

text \<open>
  A handler talks to the browser's geolocation service and to the backend through
  \<^verbatim>\<open>apiService\<close>. Each answer is a value of the environment: \<open>Inl\<close> is a rejected promise
  (the thrown error), \<open>Inr\<close> the resolved one. A handler returns the new page state together
  with the list of \<^verbatim>\<open>apiService\<close> calls it made, in order.
  The thrown error carries \<^verbatim>\<open>err.message\<close> and the optional \<^verbatim>\<open>err.data.distance_meters\<close> and
  \<^verbatim>\<open>err.data.allowed_meters\<close>. JavaScript's printing of numbers in template strings
  (\<^verbatim>\<open>Math.round(d)\<close> and \<^verbatim>\<open>${a}\<close>) is the pair of functions \<open>fmt_round\<close>, \<open>fmt_num\<close> of the
  environment.
\<close>

type_synonym js_file = string

record api_error =
  message :: "string option"
  distance_meters :: "real option"
  allowed_meters :: "real option"

datatype geo = Unsupported | PositionError | Position real real

datatype call =
    GetChecklist string
  | UpdateChecklistItem string string bool string "js_file list"
  | StartChecklist string "(real \<times> real) option"
  | CompleteChecklist string
  | ReviewChecklist string "int option" "string option"
  | GetTodayTasks
  | GetChecklists "string option"

record env =
  geolocation :: geo
  getChecklist_resp :: "api_error + checklist"
  updateChecklistItem_resp :: "api_error + unit"
  startChecklist_resp :: "api_error + unit"
  completeChecklist_resp :: "api_error + unit"
  reviewChecklist_resp :: "api_error + unit"
  getTodayTasks_resp :: "api_error + checklist list option"
  getChecklists_resp :: "api_error + checklist list"
  fmt_round :: "real \<Rightarrow> string"
  fmt_num :: "real option \<Rightarrow> string"

text \<open>\<^verbatim>\<open>err.message || fallback\<close>\<close>

definition msg_or :: "api_error \<Rightarrow> string \<Rightarrow> string" where
  "msg_or e fallback = (case message e of None \<Rightarrow> fallback | Some m \<Rightarrow> if m = [] then fallback else m)"

text \<open>
  The text shown when starting fails:
  \<^verbatim>\<open>(err.message || 'Failed to start checklist.') + extra\<close>, where \<^verbatim>\<open>extra\<close> is the distance
  diagnostics when \<^verbatim>\<open>err.data.distance_meters\<close> is defined.
\<close>

definition start_error_text :: "env \<Rightarrow> api_error \<Rightarrow> string" where
  "start_error_text ev e =
     msg_or e ''Failed to start checklist.'' @
     (case distance_meters e of
        None \<Rightarrow> []
      | Some d \<Rightarrow> '' (You are ~'' @ fmt_round ev d @ ''m away; allowed '' @
                  fmt_num ev (allowed_meters e) @ ''m)'')"

section \<open>Checklist details page (src/app/checklists/[id]/page.tsx)\<close>

text \<open>
  The React state of \<^verbatim>\<open>ChecklistDetailsPage\<close>; \<open>checklistId\<close> is the route parameter and
  \<open>None\<close> is \<^verbatim>\<open>null\<close>. The three per-item maps are JavaScript records keyed by item id.
  The timer that clears the success message after three seconds is not part of the model.
\<close>

record page_state =
  checklistId :: string
  checklist :: "checklist option"
  loading :: bool
  error :: "string option"
  updating :: "string option"
  success :: "string option"
  selectedPhotosMap :: "string \<rightharpoonup> js_file list"
  photoPreviewsMap :: "string \<rightharpoonup> string list"
  itemNotesMap :: "string \<rightharpoonup> string"
  currentRoomId_st :: "string option"
  roomPhotoProgress :: progress

text \<open>fetchChecklist (the effect run on page load), lines 50-83.\<close>

definition fetchChecklist :: "env \<Rightarrow> page_state \<Rightarrow> page_state \<times> call list" where
  "fetchChecklist ev s =
     (if checklistId s = [] then (s, [])
      else case getChecklist_resp ev of
        Inr data \<Rightarrow>
          (let orderedRooms = or_empty (property_rooms data); its = or_empty (items data)
           in (s\<lparr>checklist := Some data,
                  currentRoomId_st := currentRoomId orderedRooms its,
                  roomPhotoProgress := progress_fetch orderedRooms its,
                  loading := False\<rparr>,
               [GetChecklist (checklistId s)]))
      | Inl e \<Rightarrow>
          (s\<lparr>error := Some (msg_or e ''Failed to load checklist details.''), loading := False\<rparr>,
           [GetChecklist (checklistId s)]))"

text \<open>
  The success message of handleSubmit: the task title between double quotes after
  \<^verbatim>\<open>Task updated successfully for\<close>, then an exclamation mark; an absent title prints as
  \<^verbatim>\<open>undefined\<close>.
\<close>

definition success_text :: "item \<Rightarrow> string" where
  "success_text it =
     ''Task updated successfully for '' @ [CHR 0x22] @
     (case task_title it of None \<Rightarrow> ''undefined'' | Some t \<Rightarrow> t) @ [CHR 0x22] @ ''!''"

text \<open>handleSubmit, lines 106-159.\<close>

definition handleSubmit :: "env \<Rightarrow> page_state \<Rightarrow> item \<Rightarrow> page_state \<times> call list" where
  "handleSubmit ev s it =
     (let staged = or_empty (selectedPhotosMap s (iid it));
          draft = (case itemNotesMap s (iid it) of None \<Rightarrow> [] | Some n \<Rightarrow> n)
      in case checklist s of
        None \<Rightarrow> (s, [])
      | Some c \<Rightarrow>
          if completed it then (s\<lparr>error := Some ''Cannot modify a completed task.''\<rparr>, [])
          else
            (let upd = UpdateChecklistItem (cid c) (iid it) True draft staged
             in case updateChecklistItem_resp ev of
               Inl e \<Rightarrow>
                 (s\<lparr>error := Some (msg_or e ''Failed to update task.''), updating := None\<rparr>, [upd])
             | Inr _ \<Rightarrow>
                 (case getChecklist_resp ev of
                    Inl e \<Rightarrow>
                      (s\<lparr>error := Some (msg_or e ''Failed to update task.''), updating := None\<rparr>,
                       [upd, GetChecklist (checklistId s)])
                  | Inr data \<Rightarrow>
                      (let orderedRooms = or_empty (property_rooms data);
                           its = or_empty (items data);
                           newCurrentId = currentRoomId orderedRooms its
                       in (s\<lparr>error := None,
                              checklist := Some data,
                              currentRoomId_st := newCurrentId,
                              roomPhotoProgress := progress_submit orderedRooms its newCurrentId,
                              selectedPhotosMap := (selectedPhotosMap s)(iid it \<mapsto> []),
                              photoPreviewsMap := (photoPreviewsMap s)(iid it \<mapsto> []),
                              itemNotesMap := (itemNotesMap s)(iid it \<mapsto> []),
                              success := Some (success_text it),
                              updating := None\<rparr>,
                           [upd, GetChecklist (checklistId s)])))))"

text \<open>handleStartChecklist, lines 165-196.\<close>

definition handleStartChecklist :: "env \<Rightarrow> page_state \<Rightarrow> page_state \<times> call list" where
  "handleStartChecklist ev s =
     (case checklist s of
        None \<Rightarrow> (s, [])
      | Some c \<Rightarrow>
          (case geolocation ev of
             Unsupported \<Rightarrow>
               (s\<lparr>error := Some ''Location permission is required to start this checklist.''\<rparr>, [])
           | PositionError \<Rightarrow>
               (s\<lparr>error := Some ''Unable to get your location. Please enable location services and try again.''\<rparr>, [])
           | Position lat lon \<Rightarrow>
               (case startChecklist_resp ev of
                  Inl e \<Rightarrow> (s\<lparr>error := Some (start_error_text ev e)\<rparr>,
                            [StartChecklist (cid c) (Some (lat, lon))])
                | Inr _ \<Rightarrow>
                    (case getChecklist_resp ev of
                       Inl e \<Rightarrow> (s\<lparr>error := Some (start_error_text ev e)\<rparr>,
                                 [StartChecklist (cid c) (Some (lat, lon)), GetChecklist (checklistId s)])
                     | Inr data \<Rightarrow> (s\<lparr>checklist := Some data\<rparr>,
                                 [StartChecklist (cid c) (Some (lat, lon)), GetChecklist (checklistId s)])))))"



subsection \<open>What the details page renders\<close>

text \<open>\<^verbatim>\<open>user?.role === r\<close>; \<open>None\<close> is no signed-in user.\<close>

definition role_is :: "user option \<Rightarrow> role \<Rightarrow> bool" where
  "role_is u r = (case u of None \<Rightarrow> False | Some x \<Rightarrow> user_role x = r)"

text \<open>Truthiness of an optional number (\<^verbatim>\<open>checklist.rating\<close>) and of an optional string.\<close>

definition truthy_num :: "int option \<Rightarrow> bool" where
  "truthy_num n = (case n of None \<Rightarrow> False | Some k \<Rightarrow> k \<noteq> 0)"

definition truthy_str :: "string option \<Rightarrow> bool" where
  "truthy_str x = (case x of None \<Rightarrow> False | Some s \<Rightarrow> s \<noteq> [])"

text \<open>
  \<^verbatim>\<open>checklist.items?.filter(item => item.completed).length || 0\<close> and
  \<^verbatim>\<open>checklist.items?.length || 0\<close>
\<close>

definition completedTasksOf :: "checklist \<Rightarrow> nat" where
  "completedTasksOf c = length (filter completed (or_empty (items c)))"

definition totalTasksOf :: "checklist \<Rightarrow> nat" where
  "totalTasksOf c = length (or_empty (items c))"

definition completedTasks :: "page_state \<Rightarrow> nat" where
  "completedTasks s = (case checklist s of None \<Rightarrow> 0 | Some c \<Rightarrow> completedTasksOf c)"

definition totalTasks :: "page_state \<Rightarrow> nat" where
  "totalTasks s = (case checklist s of None \<Rightarrow> 0 | Some c \<Rightarrow> totalTasksOf c)"

text \<open>Lines 244-246.\<close>

definition canStart :: "page_state \<Rightarrow> bool" where
  "canStart s = (case checklist s of None \<Rightarrow> False | Some c \<Rightarrow> status c = Pending)"

definition canComplete :: "page_state \<Rightarrow> bool" where
  "canComplete s =
     ((case checklist s of None \<Rightarrow> False | Some c \<Rightarrow> status c = InProgress)
      \<and> completedTasks s = totalTasks s)"

definition canUpdate :: "user option \<Rightarrow> page_state \<Rightarrow> bool" where
  "canUpdate u s =
     ((case checklist s of None \<Rightarrow> False | Some c \<Rightarrow> status c = InProgress)
      \<and> role_is u Housekeeper)"

text \<open>
  The page body with the header buttons and the task list is returned only after the
  early returns for \<^verbatim>\<open>loading\<close> and for a missing checklist (lines 248-293).
\<close>

definition main_view :: "page_state \<Rightarrow> bool" where
  "main_view s = (\<not> loading s \<and> checklist s \<noteq> None)"

text \<open>The header buttons, lines 330-355.\<close>

definition offersStart :: "user option \<Rightarrow> page_state \<Rightarrow> bool" where
  "offersStart u s = (main_view s \<and> canStart s \<and> role_is u Housekeeper)"

definition offersComplete :: "user option \<Rightarrow> page_state \<Rightarrow> bool" where
  "offersComplete u s = (main_view s \<and> canComplete s \<and> role_is u Housekeeper)"

definition offersReview :: "user option \<Rightarrow> page_state \<Rightarrow> bool" where
  "offersReview u s =
     (main_view s
      \<and> (case checklist s of None \<Rightarrow> False
          | Some c \<Rightarrow> status c = Completed \<and> \<not> truthy_num (rating c))
      \<and> (role_is u Admin \<or> role_is u PropertyOwner))"

text \<open>
  The listed items, line 429:
  \<^verbatim>\<open>checklist.items?.filter(it => !currentRoomId || it.room_id === currentRoomId)\<close>
\<close>

definition visibleItems :: "page_state \<Rightarrow> item list" where
  "visibleItems s =
     (case checklist s of None \<Rightarrow> []
      | Some c \<Rightarrow> filter (\<lambda>it. \<not> truthy_str (currentRoomId_st s) \<or> Some (room_id it) = currentRoomId_st s)
                    (or_empty (items c)))"

text \<open>The update form of an item is rendered under \<^verbatim>\<open>canUpdate && !item.completed\<close>, line 546.\<close>

definition showsUpdateForm :: "user option \<Rightarrow> page_state \<Rightarrow> item \<Rightarrow> bool" where
  "showsUpdateForm u s it =
     (main_view s \<and> it \<in> set (visibleItems s) \<and> canUpdate u s \<and> \<not> completed it)"

text \<open>\<^verbatim>\<open>selectedPhotosMap[item.id]?.length || 0\<close>\<close>

definition stagedCount :: "page_state \<Rightarrow> item \<Rightarrow> nat" where
  "stagedCount s it = length (or_empty (selectedPhotosMap s (iid it)))"

text \<open>
  The \<^verbatim>\<open>disabled\<close> attribute of the Submit button, lines 631-635:
  \<^verbatim>\<open>updating === item.id || (roomPhotoProgress.required > 0 &&
     (roomPhotoProgress.total + (selectedPhotosMap[item.id]?.length || 0)) < roomPhotoProgress.required)\<close>
\<close>

definition submitDisabled :: "page_state \<Rightarrow> item \<Rightarrow> bool" where
  "submitDisabled s it =
     (updating s = Some (iid it)
      \<or> (required (roomPhotoProgress s) > 0
          \<and> int (total (roomPhotoProgress s)) + int (stagedCount s it) < required (roomPhotoProgress s)))"

subsection \<open>Editing the form of an item\<close>






subsection \<open>The page states that follow a load or a submission\<close>


section \<open>Checklists list page (src/unnamed/part_003, ChecklistsPage)\<close>

text \<open>The state of the list page; the pagination hook is left out.\<close>

record list_state =
  checklists :: "checklist list"
  l_loading :: bool
  l_error :: "string option"
  activeFilter :: string

text \<open>fetchChecklists(filter), lines 35-54.\<close>

definition fetchChecklists :: "env \<Rightarrow> list_state \<Rightarrow> string \<Rightarrow> list_state \<times> call list" where
  "fetchChecklists ev s flt =
     (let c = GetChecklists (if flt \<noteq> [] \<and> flt \<noteq> ''all'' then Some flt else None)
      in case getChecklists_resp ev of
        Inr d \<Rightarrow> (s\<lparr>l_error := None, checklists := d, l_loading := False\<rparr>, [c])
      | Inl e \<Rightarrow> (s\<lparr>l_error := Some (msg_or e ''Failed to load checklists.''), l_loading := False\<rparr>, [c]))"

text \<open>
  handleStartChecklist(checklistId), lines 64-71: \<^verbatim>\<open>apiService.startChecklist(checklistId)\<close>
  is called at once, without coordinates.
\<close>

definition list_handleStartChecklist :: "env \<Rightarrow> list_state \<Rightarrow> string \<Rightarrow> list_state \<times> call list" where
  "list_handleStartChecklist ev s checklist_id =
     (case startChecklist_resp ev of
        Inl e \<Rightarrow> (s\<lparr>l_error := Some (msg_or e ''Failed to start checklist.'')\<rparr>,
                  [StartChecklist checklist_id None])
      | Inr _ \<Rightarrow> (let (s', cs) = fetchChecklists ev s (activeFilter s)
                  in (s', StartChecklist checklist_id None # cs)))"


text \<open>
  The buttons of one card, lines 243-268. The cards are rendered under
  \<^verbatim>\<open>!loading && checklists && checklists.length > 0\<close>; the page is wrapped in
  \<^verbatim>\<open><ProtectedRoute>\<close> without a \<^verbatim>\<open>roles\<close> property.
\<close>

definition list_card :: "list_state \<Rightarrow> checklist \<Rightarrow> bool" where
  "list_card s c = (\<not> l_loading s \<and> c \<in> set (checklists s))"

definition list_offersStart :: "user option \<Rightarrow> list_state \<Rightarrow> checklist \<Rightarrow> bool" where
  "list_offersStart u s c = (list_card s c \<and> status c = Pending)"

definition list_offersComplete :: "user option \<Rightarrow> list_state \<Rightarrow> checklist \<Rightarrow> bool" where
  "list_offersComplete u s c =
     (list_card s c \<and> status c = InProgress \<and> completedTasksOf c = totalTasksOf c)"

definition list_offersReview :: "user option \<Rightarrow> list_state \<Rightarrow> checklist \<Rightarrow> bool" where
  "list_offersReview u s c =
     (list_card s c \<and> status c = Completed \<and> \<not> truthy_num (rating c)
      \<and> (role_is u Admin \<or> role_is u PropertyOwner))"

section \<open>Today's tasks page (src/app/today-tasks/page.tsx)\<close>

record today_state =
  todayTasks :: "checklist list"
  t_loading :: bool
  t_error :: "string option"

text \<open>
  fetchTodayTasks, lines 34-46; \<open>None\<close> in the answer is a \<^verbatim>\<open>response.data\<close> that is not an
  array.
\<close>

definition fetchTodayTasks :: "env \<Rightarrow> today_state \<Rightarrow> today_state \<times> call list" where
  "fetchTodayTasks ev s =
     (case getTodayTasks_resp ev of
        Inr d \<Rightarrow> (s\<lparr>t_error := None, todayTasks := or_empty d, t_loading := False\<rparr>, [GetTodayTasks])
      | Inl e \<Rightarrow> (s\<lparr>t_error := Some (msg_or e (''Failed to load today'' @ [CHR 0x27] @ ''s tasks.'')),
                    t_loading := False\<rparr>, [GetTodayTasks]))"

text \<open>handleStartChecklist(checklistId), lines 51-80.\<close>

definition today_handleStartChecklist :: "env \<Rightarrow> today_state \<Rightarrow> string \<Rightarrow> today_state \<times> call list" where
  "today_handleStartChecklist ev s checklist_id =
     (case geolocation ev of
        Unsupported \<Rightarrow>
          (s\<lparr>t_error := Some ''Location permission is required to start a checklist.''\<rparr>, [])
      | PositionError \<Rightarrow>
          (s\<lparr>t_error := Some ''Unable to get your location. Please enable location services and try again.''\<rparr>, [])
      | Position lat lon \<Rightarrow>
          (case startChecklist_resp ev of
             Inl e \<Rightarrow> (s\<lparr>t_error := Some (start_error_text ev e)\<rparr>,
                       [StartChecklist checklist_id (Some (lat, lon))])
           | Inr _ \<Rightarrow> (let (s', cs) = fetchTodayTasks ev s
                       in (s', StartChecklist checklist_id (Some (lat, lon)) # cs))))"

text \<open>
  The buttons of one checklist, lines 270-282; the Complete button of this page has no click
  handler. The page is wrapped in \<^verbatim>\<open><ProtectedRoute roles={['housekeeper']}>\<close>.
\<close>

definition today_offersStart :: "today_state \<Rightarrow> checklist \<Rightarrow> bool" where
  "today_offersStart s c = (\<not> t_loading s \<and> c \<in> set (todayTasks s) \<and> status c = Pending)"


section \<open>Review page (src/app/tasks/page.tsx, ReviewChecklistPage)\<close>







section \<open>Input sites of photos_required_count\<close>

text \<open>
  The text of an input field is a JavaScript string, a sequence of UTF-16 code units; a code
  unit is a natural number here, and \<open>code_units\<close> gives the code units of an ASCII literal.
\<close>

type_synonym js_string = "nat list"

definition code_units :: "string \<Rightarrow> js_string" where
  "code_units s = map of_char s"

text \<open>
  \<^verbatim>\<open>parseInt(raw, 10)\<close>: leading white space is skipped, one sign is read, then the longest
  run of decimal digits; without a digit the result is \<^verbatim>\<open>NaN\<close>. White space is what the
  language calls WhiteSpace and LineTerminator: tab, line feed, vertical tab, form feed,
  carriage return, space, U+00A0, U+1680, U+2000 to U+200A, U+2028, U+2029, U+202F, U+205F,
  U+3000 and U+FEFF. The result is an integer here (JavaScript rounds long digit strings to
  a double, which the clamping below maps to the same value).
\<close>

datatype js_number = NaN | Num int

definition is_ws :: "nat \<Rightarrow> bool" where
  "is_ws u =
     (u \<in> set [0x09, 0x0A, 0x0B, 0x0C, 0x0D, 0x20, 0xA0, 0x1680, 0x2028, 0x2029, 0x202F,
               0x205F, 0x3000, 0xFEFF]
      \<or> (0x2000 \<le> u \<and> u \<le> 0x200A))"

definition is_digit :: "nat \<Rightarrow> bool" where
  "is_digit u = (48 \<le> u \<and> u \<le> 57)"

definition digit_val :: "nat \<Rightarrow> nat" where
  "digit_val u = u - 48"

definition parseInt :: "js_string \<Rightarrow> js_number" where
  "parseInt raw =
     (let s = dropWhile is_ws raw;
          neg = (case s of [] \<Rightarrow> False | u # _ \<Rightarrow> u = 0x2D);
          t = (case s of [] \<Rightarrow> [] | u # us \<Rightarrow> if u = 0x2D \<or> u = 0x2B then us else s);
          ds = takeWhile is_digit t
      in if ds = [] then NaN
         else Num ((if neg then - 1 else 1) * int (foldl (\<lambda>a u. 10 * a + digit_val u) 0 ds)))"

text \<open>
  The room management dialog (src/components/rooms/room-management-dialog.tsx, lines 630-638,
  and its copy in src/components/ui/tag-input.tsx, lines 1003-1011): the new value of the
  state \<^verbatim>\<open>photosRequiredCount\<close>, \<open>None\<close> being \<^verbatim>\<open>undefined\<close>.
\<close>

definition dialog_onChange :: "js_string \<Rightarrow> int option" where
  "dialog_onChange raw =
     (if raw = [] then None
      else case parseInt raw of NaN \<Rightarrow> None | Num n \<Rightarrow> Some (max 1 (min 10 n)))"

text \<open>Saving the dialog sends \<^verbatim>\<open>photosRequiredCount || 0\<close> (lines 314-333).\<close>

definition dialog_saved_count :: "int option \<Rightarrow> int" where
  "dialog_saved_count c = (case c of None \<Rightarrow> 0 | Some n \<Rightarrow> n)"

text \<open>
  The room selection card (src/components/rooms/room-selection-card.tsx, lines 313-349): the
  count passed to \<^verbatim>\<open>apiService.updateRoomRequirements\<close>; an empty input sends \<open>0\<close>.
\<close>

definition card_onChange :: "js_string \<Rightarrow> js_number" where
  "card_onChange raw =
     (if raw = [] then Num 0
      else case parseInt raw of NaN \<Rightarrow> NaN | Num n \<Rightarrow> Num (max 0 (min 10 n)))"

text \<open>
  The switch of the room selection card, lines 264-283: the pair
  (\<^verbatim>\<open>requiresPhoto\<close>, \<^verbatim>\<open>photosRequiredCount\<close>) passed to \<^verbatim>\<open>apiService.updateRoomRequirements\<close>
  is \<^verbatim>\<open>!!checked\<close> and \<^verbatim>\<open>room.pivot?.photos_required_count ?? 0\<close>: the count stored so far is
  sent again, also when the switch is turned off.
\<close>

definition card_onCheckedChange :: "room \<Rightarrow> bool \<Rightarrow> bool \<times> int" where
  "card_onCheckedChange r checked =
     (checked,
      case room_pivot r of None \<Rightarrow> 0
      | Some p \<Rightarrow> (case photos_required_count p of None \<Rightarrow> 0 | Some c \<Rightarrow> c))"

section \<open>Example data\<close>

text \<open>
  A property with two rooms in order, Kitchen then Bath; Bath requires two photos. The
  kitchen task is done, the bath task is open.
\<close>

definition kitchen :: room where
  "kitchen = \<lparr>rid = ''r1'', rname = ''Kitchen'', room_pivot = None\<rparr>"

definition bath :: room where
  "bath = \<lparr>rid = ''r2'', rname = ''Bath'',
            room_pivot = Some \<lparr>property_id = Some ''p1'', requires_photo = Some True,
                               photos_required_count = Some 2\<rparr>\<rparr>"

definition item_k :: item where
  "item_k = \<lparr>iid = ''i1'', room_id = ''r1'', completed = True, inotes = None,
              photos = None, task_title = Some ''Wipe counters''\<rparr>"

definition item_b :: item where
  "item_b = \<lparr>iid = ''i2'', room_id = ''r2'', completed = False, inotes = None,
              photos = None, task_title = Some ''Clean mirror''\<rparr>"

definition visit :: checklist where
  "visit = \<lparr>cid = ''c1'', status = InProgress, rating = None, cnotes = None,
             property_rooms = Some [kitchen, bath], items = Some [item_k, item_b]\<rparr>"

text \<open>A backend that accepts every request and answers every fetch with \<open>visit\<close>.\<close>

definition ok_env :: env where
  "ok_env = \<lparr>geolocation = Position 52 13,
              getChecklist_resp = Inr visit,
              updateChecklistItem_resp = Inr (),
              startChecklist_resp = Inr (),
              completeChecklist_resp = Inr (),
              reviewChecklist_resp = Inr (),
              getTodayTasks_resp = Inr (Some [visit]),
              getChecklists_resp = Inr [visit],
              fmt_round = (\<lambda>_. ''0''),
              fmt_num = (\<lambda>_. ''0'')\<rparr>"

text \<open>The details page before its first fetch, and with \<open>n\<close> photos staged for the bath task.\<close>

definition page0 :: page_state where
  "page0 = \<lparr>checklistId = ''c1'', checklist = None, loading = True, error = None,
             updating = None, success = None, selectedPhotosMap = Map.empty,
             photoPreviewsMap = Map.empty, itemNotesMap = Map.empty,
             currentRoomId_st = None, roomPhotoProgress = \<lparr>required = 0, total = 0\<rparr>\<rparr>"

definition staged_page :: "js_file list \<Rightarrow> page_state" where
  "staged_page fs = (fst (fetchChecklist ok_env page0))\<lparr>selectedPhotosMap := [''i2'' \<mapsto> fs]\<rparr>"


text \<open>
  A property whose only room, Hall, has the photo requirement switched off but still carries
  a count of three; its task is open and no photo has been saved.
\<close>

definition hall_pivot :: pivot where
  "hall_pivot = \<lparr>property_id = Some ''p2'', requires_photo = Some False,
                  photos_required_count = Some 3\<rparr>"

definition hall :: room where
  "hall = \<lparr>rid = ''r3'', rname = ''Hall'', room_pivot = Some hall_pivot\<rparr>"

definition item_h :: item where
  "item_h = \<lparr>iid = ''i3'', room_id = ''r3'', completed = False, inotes = None,
              photos = None, task_title = Some ''Vacuum''\<rparr>"

definition hall_visit :: checklist where
  "hall_visit = \<lparr>cid = ''c2'', status = InProgress, rating = None, cnotes = None,
                  property_rooms = Some [hall], items = Some [item_h]\<rparr>"

definition hall_env :: env where
  "hall_env = ok_env\<lparr>getChecklist_resp := Inr hall_visit\<rparr>"

definition hall_page :: "js_file list \<Rightarrow> page_state" where
  "hall_page fs = (fst (fetchChecklist hall_env page0))\<lparr>selectedPhotosMap := [''i3'' \<mapsto> fs]\<rparr>"


text \<open>The same visit once the bath task is done, and as the backend returns it after completion.\<close>

definition done_visit :: checklist where
  "done_visit = visit\<lparr>items := Some [item_k, item_b\<lparr>completed := True\<rparr>]\<rparr>"


definition done_page :: page_state where
  "done_page = page0\<lparr>checklist := Some done_visit, loading := False\<rparr>"


text \<open>A backend that rejects the item update, and a browser without geolocation.\<close>

definition network_error :: api_error where
  "network_error = \<lparr>message = Some ''Network error'', distance_meters = None, allowed_meters = None\<rparr>"

definition failing_env :: env where
  "failing_env = ok_env\<lparr>updateChecklistItem_resp := Inl network_error\<rparr>"

definition nogeo_env :: env where
  "nogeo_env = ok_env\<lparr>geolocation := Unsupported\<rparr>"

text \<open>The list page showing a pending visit and a finished one to an administrator.\<close>

definition pending_visit :: checklist where
  "pending_visit = visit\<lparr>status := Pending, items := Some [item_k\<lparr>completed := False\<rparr>, item_b]\<rparr>"

definition list1 :: list_state where
  "list1 = \<lparr>checklists = [pending_visit, done_visit], l_loading = False, l_error = None, activeFilter = ''all''\<rparr>"

definition admin_user :: user where
  "admin_user = \<lparr>user_role = Admin\<rparr>"






text \<open>
  Hall while its requirement was still switched on, as the room selection card holds it.
\<close>

definition hall_on :: room where
  "hall_on = hall\<lparr>room_pivot := Some (hall_pivot\<lparr>requires_photo := Some True\<rparr>)\<rparr>"











section \<open>Room sequencer: properties\<close>

lemma js_or_nonempty: "s \<noteq> [] \<Longrightarrow> js_or (Some s) b = Some s"
  by (simp add: js_or_def)

lemma js_or_None: "js_or None b = b"
  by (simp add: js_or_def)

lemma hasIncomplete_iff:
  "hasIncomplete its r \<longleftrightarrow> (\<exists>it \<in> set its. room_id it = rid r \<and> \<not> completed it)"
  by (simp add: hasIncomplete_def list_ex_iff)

lemma firstPending_Some_index:
  assumes "i < length rs" and "hasIncomplete its (rs ! i)"
    and "\<forall>j < i. \<not> hasIncomplete its (rs ! j)"
  shows "firstPending rs its = Some (rs ! i)"
  unfolding firstPending_def find_Some_iff using assms by blast

lemma firstPending_None:
  assumes "\<forall>r \<in> set rs. \<not> hasIncomplete its r"
  shows "firstPending rs its = None"
  unfolding firstPending_def find_None_iff using assms by blast

text \<open>
  C1. Let the room identifiers be non-empty strings. Then the current-room computation returns
  the identifier of the first room, in the order of the room list, that has an item of that
  room with \<open>completed = false\<close>; when no room has such an item it returns the identifier of
  the first room of a non-empty list, and \<open>null\<close> for the empty list.
\<close>

theorem currentRoomId_first_incomplete:
  assumes ids: "\<forall>r \<in> set rs. rid r \<noteq> []"
  shows "(\<forall>i < length rs.
            (\<exists>it \<in> set its. room_id it = rid (rs ! i) \<and> \<not> completed it) \<and>
            (\<forall>j < i. \<not> (\<exists>it \<in> set its. room_id it = rid (rs ! j) \<and> \<not> completed it))
            \<longrightarrow> currentRoomId rs its = Some (rid (rs ! i)))
       \<and> ((\<forall>r \<in> set rs. \<not> (\<exists>it \<in> set its. room_id it = rid r \<and> \<not> completed it)) \<and> rs \<noteq> []
            \<longrightarrow> currentRoomId rs its = Some (rid (rs ! 0)))
       \<and> (rs = [] \<longrightarrow> currentRoomId rs its = None)"
proof (intro conjI allI impI)
  fix i
  assume i: "i < length rs"
    and h: "(\<exists>it \<in> set its. room_id it = rid (rs ! i) \<and> \<not> completed it) \<and>
            (\<forall>j < i. \<not> (\<exists>it \<in> set its. room_id it = rid (rs ! j) \<and> \<not> completed it))"
  from h have "hasIncomplete its (rs ! i)" and "\<forall>j < i. \<not> hasIncomplete its (rs ! j)"
    by (simp_all add: hasIncomplete_iff)
  with i have fp: "firstPending rs its = Some (rs ! i)"
    by (rule firstPending_Some_index)
  from i ids have "rid (rs ! i) \<noteq> []" by simp
  with fp show "currentRoomId rs its = Some (rid (rs ! i))"
    by (simp add: currentRoomId_def js_or_nonempty)
next
  assume h: "(\<forall>r \<in> set rs. \<not> (\<exists>it \<in> set its. room_id it = rid r \<and> \<not> completed it)) \<and> rs \<noteq> []"
  then have "\<forall>r \<in> set rs. \<not> hasIncomplete its r"
    by (simp add: hasIncomplete_iff)
  then have fp: "firstPending rs its = None"
    by (rule firstPending_None)
  from h obtain r rest where rs: "rs = r # rest" by (cases rs) auto
  with ids have "rid r \<noteq> []" by simp
  with fp rs show "currentRoomId rs its = Some (rid (rs ! 0))"
    by (simp add: currentRoomId_def first_room_def js_or_nonempty js_or_None)
next
  assume "rs = []"
  then show "currentRoomId rs its = None"
    by (simp add: currentRoomId_def firstPending_def first_room_def js_or_None)
qed


theorem currentRoomId_first_incomplete_witness:
  "rid kitchen \<noteq> [] \<and> rid bath \<noteq> []
   \<and> completed item_k \<and> room_id item_b = rid bath \<and> \<not> completed item_b
   \<and> currentRoomId [kitchen, bath] [item_k, item_b] = Some (rid bath)"
proof -
  have ids: "\<forall>r \<in> set [kitchen, bath]. rid r \<noteq> []"
    by (simp add: kitchen_def bath_def)
  have "currentRoomId [kitchen, bath] [item_k, item_b] = Some (rid ([kitchen, bath] ! 1))"
    using currentRoomId_first_incomplete [OF ids, of "[item_k, item_b]", THEN conjunct1, THEN spec, of 1]
    by (simp add: kitchen_def bath_def item_k_def item_b_def)
  with ids show ?thesis by (simp add: kitchen_def bath_def item_k_def item_b_def)
qed

text \<open>The result depends on the set of items only, not on their order.\<close>

lemma currentRoomId_items_order:
  assumes "set its = set its'"
  shows "currentRoomId rs its = currentRoomId rs its'"
proof -
  have "hasIncomplete its = hasIncomplete its'"
    using assms by (simp add: fun_eq_iff hasIncomplete_iff)
  then show ?thesis by (simp add: currentRoomId_def firstPending_def)
qed

text \<open>
  The hypothesis on the identifiers is needed: an empty identifier is falsy, so the
  expression falls through to the next operand of \<^verbatim>\<open>||\<close>.
\<close>

lemma currentRoomId_empty_id:
  "currentRoomId [\<lparr>rid = [], rname = n, room_pivot = p\<rparr>] [] = None"
  by (simp add: currentRoomId_def firstPending_def hasIncomplete_def first_room_def js_or_def)

section \<open>Photo requirement gate: properties\<close>







text \<open>
  C3 (the code departs from the claim). Turning the switch of Hall off in the room selection
  card sends \<open>requires_photo = false\<close> together with the old count of three. On the page loaded
  for a room with this pivot, with no photo saved or staged and no submission running, the
  Submit button is disabled: the gate reads the count and never \<open>requires_photo\<close>.
\<close>

theorem requires_photo_off_still_gated:
  "card_onCheckedChange hall_on False = (False, 3)
   \<and> room_pivot hall = Some hall_pivot \<and> requires_photo hall_pivot = Some False
   \<and> photos_required_count hall_pivot = Some 3
   \<and> currentRoom (or_empty (property_rooms hall_visit)) (or_empty (items hall_visit)) = Some hall
   \<and> updating (hall_page []) = None
   \<and> submitDisabled (hall_page []) item_h"
  by (simp add: card_onCheckedChange_def hall_on_def
      hall_page_def hall_env_def ok_env_def page0_def fetchChecklist_def Let_def
      hall_visit_def hall_def hall_pivot_def item_h_def or_empty_def currentRoom_def
      firstPending_def hasIncomplete_def progress_fetch_def pivot_count_def roomPhotos_def
      submitDisabled_def stagedCount_def currentRoomId_def js_or_def first_room_def)

section \<open>Item submission: properties\<close>

text \<open>
  C4. Submitting an item whose \<open>completed\<close> flag is true, on a page holding a checklist of any
  status, is rejected with the error \<^verbatim>\<open>Cannot modify a completed task.\<close>: the handler makes no
  \<^verbatim>\<open>apiService\<close> call, and the page state (the checklist, its items, the staged form data)
  is unchanged apart from the error message.
\<close>

theorem handleSubmit_completed_item_rejected:
  assumes "checklist s = Some c" and "completed it"
  shows "handleSubmit ev s it = (s\<lparr>error := Some ''Cannot modify a completed task.''\<rparr>, [])"
  using assms by (simp add: handleSubmit_def Let_def)

theorem handleSubmit_completed_item_rejected_witness:
  "checklist done_page = Some done_visit \<and> completed item_k
   \<and> handleSubmit ok_env done_page item_k
       = (done_page\<lparr>error := Some ''Cannot modify a completed task.''\<rparr>, [])"
proof -
  have c: "checklist done_page = Some done_visit" by (simp add: done_page_def)
  have d: "completed item_k" by (simp add: item_k_def)
  from c d handleSubmit_completed_item_rejected [OF c d, of ok_env] show ?thesis by simp
qed

text \<open>
  C10. For a loaded checklist and an item that is not completed: when the update call
  throws, the page state changes only in \<open>error\<close> (the thrown message, or
  \<^verbatim>\<open>Failed to update task.\<close>) and in \<open>updating\<close> (reset to \<^verbatim>\<open>null\<close>), so the staged photos, the
  previews and the draft notes are as before; the same holds when the reload that follows an
  accepted update throws. When the submission succeeds (both calls return), the three
  entries of the item are cleared, the error is cleared and the success message is set.
\<close>

theorem handleSubmit_form_state:
  assumes c: "checklist s = Some c" and nc: "\<not> completed it"
  shows "(\<forall>e. updateChecklistItem_resp ev = Inl e \<longrightarrow>
            fst (handleSubmit ev s it)
              = s\<lparr>error := Some (msg_or e ''Failed to update task.''), updating := None\<rparr>)
       \<and> (\<forall>e. updateChecklistItem_resp ev = Inr () \<and> getChecklist_resp ev = Inl e \<longrightarrow>
            fst (handleSubmit ev s it)
              = s\<lparr>error := Some (msg_or e ''Failed to update task.''), updating := None\<rparr>)
       \<and> (\<forall>d. updateChecklistItem_resp ev = Inr () \<and> getChecklist_resp ev = Inr d \<longrightarrow>
            selectedPhotosMap (fst (handleSubmit ev s it)) = (selectedPhotosMap s)(iid it \<mapsto> [])
          \<and> photoPreviewsMap (fst (handleSubmit ev s it)) = (photoPreviewsMap s)(iid it \<mapsto> [])
          \<and> itemNotesMap (fst (handleSubmit ev s it)) = (itemNotesMap s)(iid it \<mapsto> [])
          \<and> error (fst (handleSubmit ev s it)) = None
          \<and> success (fst (handleSubmit ev s it)) = Some (success_text it))"
  using c nc by (simp add: handleSubmit_def Let_def)

theorem handleSubmit_form_state_witness:
  "checklist (staged_page [''a.jpg'']) = Some visit \<and> \<not> completed item_b
   \<and> updateChecklistItem_resp failing_env = Inl network_error
   \<and> selectedPhotosMap (fst (handleSubmit failing_env (staged_page [''a.jpg'']) item_b)) ''i2''
       = Some [''a.jpg'']
   \<and> error (fst (handleSubmit failing_env (staged_page [''a.jpg'']) item_b)) = Some ''Network error''
   \<and> selectedPhotosMap (fst (handleSubmit ok_env (staged_page [''a.jpg'']) item_b)) ''i2'' = Some []"
proof -
  have c: "checklist (staged_page [''a.jpg'']) = Some visit"
    by (simp add: staged_page_def fetchChecklist_def ok_env_def page0_def Let_def)
  have nc: "\<not> completed item_b" by (simp add: item_b_def)
  have f: "updateChecklistItem_resp failing_env = Inl network_error"
    by (simp add: failing_env_def)
  have u: "updateChecklistItem_resp ok_env = Inr () \<and> getChecklist_resp ok_env = Inr visit"
    by (simp add: ok_env_def)
  have sel: "selectedPhotosMap (staged_page [''a.jpg'']) ''i2'' = Some [''a.jpg'']"
    by (simp add: staged_page_def)
  note T1 = handleSubmit_form_state [OF c nc, of failing_env, THEN conjunct1, THEN spec, of network_error]
  note T3 = handleSubmit_form_state [OF c nc, of ok_env, THEN conjunct2, THEN conjunct2, THEN spec, of visit]
  from T1 f have a: "fst (handleSubmit failing_env (staged_page [''a.jpg'']) item_b)
      = (staged_page [''a.jpg''])\<lparr>error := Some (msg_or network_error ''Failed to update task.''), updating := None\<rparr>"
    by simp
  from T3 u have b: "selectedPhotosMap (fst (handleSubmit ok_env (staged_page [''a.jpg'']) item_b))
      = (selectedPhotosMap (staged_page [''a.jpg'']))(iid item_b \<mapsto> [])"
    by simp
  have ii: "iid item_b = ''i2''" by (simp add: item_b_def)
  have a1: "selectedPhotosMap (fst (handleSubmit failing_env (staged_page [''a.jpg'']) item_b)) ''i2''
       = Some [''a.jpg'']"
    by (simp add: a sel)
  have a2: "error (fst (handleSubmit failing_env (staged_page [''a.jpg'']) item_b)) = Some ''Network error''"
    by (simp add: a msg_or_def network_error_def)
  have b1: "selectedPhotosMap (fst (handleSubmit ok_env (staged_page [''a.jpg'']) item_b)) ''i2'' = Some []"
    by (simp add: b ii)
  from c nc f a1 a2 b1 show ?thesis by blast
qed

section \<open>Completing a checklist: properties\<close>







section \<open>Starting a checklist: properties\<close>

text \<open>
  On the details page and on today's tasks, a start attempt without a location fix sets a
  location error and makes no \<^verbatim>\<open>apiService\<close> call; with a fix, the first call forwards the
  coordinates.
\<close>

lemma details_start_without_fix:
  assumes "checklist s = Some c"
  shows "geolocation ev = Unsupported \<Longrightarrow>
           handleStartChecklist ev s
             = (s\<lparr>error := Some ''Location permission is required to start this checklist.''\<rparr>, [])"
    and "geolocation ev = PositionError \<Longrightarrow>
           handleStartChecklist ev s
             = (s\<lparr>error := Some ''Unable to get your location. Please enable location services and try again.''\<rparr>, [])"
    and "geolocation ev = Position lat lon \<Longrightarrow>
           hd (snd (handleStartChecklist ev s)) = StartChecklist (cid c) (Some (lat, lon))"
  using assms by (simp_all add: handleStartChecklist_def split: sum.splits)

lemma today_start_without_fix:
  shows "geolocation ev = Unsupported \<Longrightarrow>
           today_handleStartChecklist ev s i
             = (s\<lparr>t_error := Some ''Location permission is required to start a checklist.''\<rparr>, [])"
    and "geolocation ev = PositionError \<Longrightarrow>
           today_handleStartChecklist ev s i
             = (s\<lparr>t_error := Some ''Unable to get your location. Please enable location services and try again.''\<rparr>, [])"
    and "geolocation ev = Position lat lon \<Longrightarrow>
           hd (snd (today_handleStartChecklist ev s i)) = StartChecklist i (Some (lat, lon))"
  by (simp_all add: today_handleStartChecklist_def split: sum.splits prod.splits)

text \<open>
  C6 (the code departs from the claim). On the list page a start attempt in a browser
  without geolocation still forwards the start request, without coordinates, and sets no
  location error.
\<close>

theorem list_start_without_fix:
  "geolocation nogeo_env = Unsupported
   \<and> list_handleStartChecklist nogeo_env list1 ''c1''
       = (list1\<lparr>l_error := None, checklists := [visit], l_loading := False\<rparr>,
          [StartChecklist ''c1'' None, GetChecklists None])"
  by (simp add: list_handleStartChecklist_def fetchChecklists_def nogeo_env_def ok_env_def list1_def)

section \<open>Role gating: properties\<close>

text \<open>On the details page the three transitions are offered by role.\<close>

lemma details_offers_by_role:
  shows "offersStart u s \<Longrightarrow> role_is u Housekeeper"
    and "offersComplete u s \<Longrightarrow> role_is u Housekeeper"
    and "offersReview u s \<Longrightarrow> role_is u Admin \<or> role_is u PropertyOwner"
    and "showsUpdateForm u s it \<Longrightarrow> role_is u Housekeeper"
    and "list_offersReview u ls k \<Longrightarrow> role_is u Admin \<or> role_is u PropertyOwner"
  by (simp_all add: offersStart_def offersComplete_def offersReview_def showsUpdateForm_def
      canUpdate_def list_offersReview_def)

text \<open>
  C9 (the code departs from the claim). The list page renders the Start button of a pending
  checklist and the Complete button of a finished one for an administrator: their
  conditions do not mention the role.
\<close>

theorem list_offers_start_to_admin:
  "user_role admin_user = Admin \<and> status pending_visit = Pending
   \<and> list_offersStart (Some admin_user) list1 pending_visit
   \<and> list_offersComplete (Some admin_user) list1 done_visit"
  by (simp add: list_offersStart_def list_offersComplete_def list_card_def list1_def admin_user_def
      pending_visit_def done_visit_def visit_def completedTasksOf_def totalTasksOf_def
      or_empty_def item_k_def item_b_def)



section \<open>Reviewing a checklist: properties\<close>




section \<open>Input of the photo count: properties\<close>

lemma parseInt_zero: "parseInt (code_units ''0'') = Num 0"
  by (simp add: parseInt_def code_units_def is_ws_def is_digit_def digit_val_def)

lemma parseInt_25: "parseInt (code_units ''25'') = Num 25"
  by (simp add: parseInt_def code_units_def is_ws_def is_digit_def digit_val_def)

text \<open>A no-break space before the digits is skipped like any other white space.\<close>

lemma parseInt_nbsp: "parseInt (0xA0 # code_units ''7'') = Num 7"
  by (simp add: parseInt_def code_units_def is_ws_def is_digit_def digit_val_def)

lemma code_units_nonempty: "code_units (c # cs) \<noteq> []"
  by (simp add: code_units_def)

text \<open>
  C8, as stated, fails: typing \<open>0\<close> into the count field of the room selection card sends
  and stores the count \<open>0\<close>, which is outside \<open>[1, 10]\<close>.
\<close>

theorem card_count_zero_counterexample:
  "card_onChange (code_units ''0'') = Num 0"
  by (simp add: card_onChange_def parseInt_zero code_units_nonempty)

text \<open>
  C8, amended. The room management dialog stores a count only within \<open>[1, 10]\<close>; the room
  selection card sends a count within \<open>[0, 10]\<close> whenever the input yields a number, and \<open>0\<close>
  for an empty input. A stored count of \<open>0\<close> and an absent count or pivot give the checklist
  page the same required number, \<open>0\<close>, and with it the Submit button is never disabled by
  photos (only while the item is being submitted).
\<close>

theorem count_clamped_per_site:
  "(\<forall>c. dialog_onChange raw = Some c \<longrightarrow> 1 \<le> c \<and> c \<le> 10)
   \<and> (\<forall>c. card_onChange raw = Num c \<longrightarrow> 0 \<le> c \<and> c \<le> 10)
   \<and> card_onChange [] = Num 0
   \<and> dialog_onChange [] = None \<and> dialog_saved_count None = 0
   \<and> (\<forall>p. room_pivot r = Some p
           \<and> (photos_required_count p = None \<or> photos_required_count p = Some 0)
         \<longrightarrow> pivot_count r = 0)
   \<and> (room_pivot r = None \<longrightarrow> pivot_count r = 0)
   \<and> (required (roomPhotoProgress s) = 0 \<and> updating s \<noteq> Some (iid it) \<longrightarrow> \<not> submitDisabled s it)"
proof (intro conjI)
  show "\<forall>c. dialog_onChange raw = Some c \<longrightarrow> 1 \<le> c \<and> c \<le> 10"
    by (auto simp: dialog_onChange_def split: if_splits js_number.splits)
  show "\<forall>c. card_onChange raw = Num c \<longrightarrow> 0 \<le> c \<and> c \<le> 10"
    by (auto simp: card_onChange_def split: if_splits js_number.splits)
  show "card_onChange [] = Num 0" by (simp add: card_onChange_def)
  show "dialog_onChange [] = None" by (simp add: dialog_onChange_def)
  show "dialog_saved_count None = 0" by (simp add: dialog_saved_count_def)
  show "\<forall>p. room_pivot r = Some p
           \<and> (photos_required_count p = None \<or> photos_required_count p = Some 0)
         \<longrightarrow> pivot_count r = 0"
    by (auto simp: pivot_count_def)
  show "room_pivot r = None \<longrightarrow> pivot_count r = 0"
    by (simp add: pivot_count_def)
  show "required (roomPhotoProgress s) = 0 \<and> updating s \<noteq> Some (iid it) \<longrightarrow> \<not> submitDisabled s it"
    by (simp add: submitDisabled_def)
qed

theorem count_clamped_per_site_witness:
  "dialog_onChange (code_units ''25'') = Some 10 \<and> dialog_onChange (code_units ''0'') = Some 1
   \<and> card_onChange (code_units ''25'') = Num 10
   \<and> (\<exists>c. dialog_onChange (code_units ''0'') = Some c \<and> 1 \<le> c \<and> c \<le> 10)
   \<and> (\<exists>c. card_onChange (code_units ''25'') = Num c \<and> 0 \<le> c \<and> c \<le> 10)"
proof -
  have a: "dialog_onChange (code_units ''25'') = Some 10"
    and b: "dialog_onChange (code_units ''0'') = Some 1"
    and c: "card_onChange (code_units ''25'') = Num 10"
    by (simp_all add: dialog_onChange_def card_onChange_def parseInt_zero parseInt_25
        code_units_nonempty)
  from count_clamped_per_site [of "code_units ''0''", THEN conjunct1] b
  have d: "\<exists>c. dialog_onChange (code_units ''0'') = Some c \<and> 1 \<le> c \<and> c \<le> 10" by blast
  from count_clamped_per_site [of "code_units ''25''", THEN conjunct2, THEN conjunct1] c
  have e: "\<exists>c. card_onChange (code_units ''25'') = Num c \<and> 0 \<le> c \<and> c \<le> 10" by blast
  from a b c d e show ?thesis by blast
qed

end
